theory Spec2Isabelle
  imports Complex_Main "HOL-Library.Multiset" "HOL-Library.Product_Lexorder"
begin

section \<open>JavaScript numbers and the two library functions the program parses with\<close>

text \<open>
  The program computes with JavaScript numbers. They are modelled as exact rationals
  together with the value NaN, which is what \<^verbatim>\<open>parseInt\<close> returns on a string
  without digits and which every comparison answers with false. Not modelled: the
  rounding of binary64 (counts above \<open>2^53\<close>, quotients), the infinities that only
  overflow produces, and the sign of zero (\<open>-0 === 0\<close> holds in the source as well).
  No division of this program is reached with a zero divisor: each one is guarded
  (\<^verbatim>\<open>subscriberCount === 0\<close>, \<^verbatim>\<open>channelAvgViews <= 0\<close>,
  \<^verbatim>\<open>filtered.length === 0\<close>); the quotient by zero is NaN here.
\<close>

datatype number = NaN | Num rat

fun js_lt :: "number \<Rightarrow> number \<Rightarrow> bool" where
  "js_lt (Num a) (Num b) = (a < b)"
| "js_lt _ _ = False"

fun js_le :: "number \<Rightarrow> number \<Rightarrow> bool" where
  "js_le (Num a) (Num b) = (a \<le> b)"
| "js_le _ _ = False"

fun js_gt :: "number \<Rightarrow> number \<Rightarrow> bool" where
  "js_gt (Num a) (Num b) = (a > b)"
| "js_gt _ _ = False"

fun js_ge :: "number \<Rightarrow> number \<Rightarrow> bool" where
  "js_ge (Num a) (Num b) = (a \<ge> b)"
| "js_ge _ _ = False"

text \<open>The strict equality \<^verbatim>\<open>===\<close> on numbers: NaN equals nothing.\<close>

fun js_eq :: "number \<Rightarrow> number \<Rightarrow> bool" where
  "js_eq (Num a) (Num b) = (a = b)"
| "js_eq _ _ = False"

fun js_add :: "number \<Rightarrow> number \<Rightarrow> number" where
  "js_add (Num a) (Num b) = Num (a + b)"
| "js_add _ _ = NaN"

fun js_sub :: "number \<Rightarrow> number \<Rightarrow> number" where
  "js_sub (Num a) (Num b) = Num (a - b)"
| "js_sub _ _ = NaN"

fun js_mul :: "number \<Rightarrow> number \<Rightarrow> number" where
  "js_mul (Num a) (Num b) = Num (a * b)"
| "js_mul _ _ = NaN"

fun js_div :: "number \<Rightarrow> number \<Rightarrow> number" where
  "js_div (Num a) (Num b) = (if b = 0 then NaN else Num (a / b))"
| "js_div _ _ = NaN"

text \<open>\<^verbatim>\<open>x || y\<close> on numbers: \<open>x\<close> when it is truthy (neither zero nor NaN).\<close>

fun js_or :: "number \<Rightarrow> number \<Rightarrow> number" where
  "js_or (Num a) y = (if a = 0 then y else Num a)"
| "js_or NaN y = y"


text \<open>
  \<^verbatim>\<open>parseFloat(x.toFixed(f))\<close>: \<open>toFixed\<close> prints the integer \<open>n\<close> with
  \<open>n / 10^f\<close> nearest to \<open>|x|\<close> (the larger one at a tie) under the sign of \<open>x\<close>,
  prints \<open>x\<close> itself from \<open>10^21\<close> on and \<^verbatim>\<open>"NaN"\<close> for NaN;
  \<open>parseFloat\<close> reads the number back.
\<close>

fun toFixed_parseFloat :: "nat \<Rightarrow> number \<Rightarrow> number" where
  "toFixed_parseFloat f NaN = NaN"
| "toFixed_parseFloat f (Num x) =
     (if \<bar>x\<bar> \<ge> 10 ^ 21 then Num x
      else if x < 0 then Num (- (of_int \<lfloor>(- x) * 10 ^ f + 1 / 2\<rfloor> / 10 ^ f))
      else Num (of_int \<lfloor>x * 10 ^ f + 1 / 2\<rfloor> / 10 ^ f))"

subsection \<open>parseInt\<close>

text \<open>
  \<^verbatim>\<open>parseInt(s)\<close> without a radix: leading white space is skipped, one sign is
  read, a prefix \<^verbatim>\<open>0x\<close> or \<^verbatim>\<open>0X\<close> selects radix 16, and the longest run of
  digits of the radix is the value; no digit gives NaN. Strings are byte strings here,
  so only the white space of ASCII is skipped.
\<close>

definition isWhiteSpace :: "char \<Rightarrow> bool" where
  "isWhiteSpace c = (c \<in> {CHR 0x09, CHR 0x0A, CHR 0x0B, CHR 0x0C, CHR 0x0D, CHR '' ''})"

text \<open>The value of a digit is its place in the row of the digits.\<close>

fun indexOf :: "char \<Rightarrow> string \<Rightarrow> int \<Rightarrow> int option" where
  "indexOf c [] i = None"
| "indexOf c (d # ds) i = (if c = d then Some i else indexOf c ds (i + 1))"

definition decDigit :: "char \<Rightarrow> int option" where
  "decDigit c = indexOf c ''0123456789'' 0"

definition hexDigit :: "char \<Rightarrow> int option" where
  "hexDigit c =
     (case indexOf c ''0123456789abcdef'' 0 of
        Some d \<Rightarrow> Some d
      | None \<Rightarrow> indexOf c ''0123456789ABCDEF'' 0)"

text \<open>The value of the longest prefix of digits, and whether there was a digit.\<close>

fun digitsValue :: "(char \<Rightarrow> int option) \<Rightarrow> int \<Rightarrow> string \<Rightarrow> int \<Rightarrow> int" where
  "digitsValue dig radix [] acc = acc"
| "digitsValue dig radix (c # cs) acc =
     (case dig c of None \<Rightarrow> acc
      | Some d \<Rightarrow> digitsValue dig radix cs (acc * radix + d))"

definition parseDigits :: "(char \<Rightarrow> int option) \<Rightarrow> int \<Rightarrow> string \<Rightarrow> int option" where
  "parseDigits dig radix s =
     (case s of [] \<Rightarrow> None
      | c # cs \<Rightarrow> (case dig c of None \<Rightarrow> None
                   | Some d \<Rightarrow> Some (digitsValue dig radix s 0)))"

definition parseInt :: "string \<Rightarrow> number" where
  "parseInt s =
     (let t = dropWhile isWhiteSpace s;
          negative = (case t of [] \<Rightarrow> False | c # r \<Rightarrow> c = CHR ''-'');
          t1 = (case t of [] \<Rightarrow> []
                | c # r \<Rightarrow> if c = CHR ''-'' \<or> c = CHR ''+'' then r else t);
          hex = (take 2 t1 = ''0x'' \<or> take 2 t1 = ''0X'');
          parsed = (if hex then parseDigits hexDigit 16 (drop 2 t1)
                    else parseDigits decDigit 10 t1)
      in case parsed of None \<Rightarrow> NaN
         | Some n \<Rightarrow> if negative then Num (- of_int n) else Num (of_int n))"

section \<open>videoType.ts\<close>

datatype VideoType = Shorts | Longform

datatype DurationBucket = Short | Medium | Long | Any

definition getVideoTypeSearchParams :: "VideoType \<Rightarrow> DurationBucket list" where
  "getVideoTypeSearchParams videoType =
     (if videoType = Shorts then [Short] else [Medium, Long])"

text \<open>
  \<^verbatim>\<open>iso8601.match(/PT(?:(\d+)H)?(?:(\d+)M)?(?:(\d+)S)?/)\<close>: the pattern is not
  anchored and all of its groups are optional, so it matches at the first \<^verbatim>\<open>PT\<close> of
  the string, and fails only when there is none. A group captures a run of digits that
  is as long as possible and is followed by its letter.
\<close>

fun afterPT :: "string \<Rightarrow> string option" where
  "afterPT [] = None"
| "afterPT [c] = None"
| "afterPT (c # d # cs) =
     (if c = CHR ''P'' \<and> d = CHR ''T'' then Some cs else afterPT (d # cs))"

definition isDecDigit :: "char \<Rightarrow> bool" where
  "isDecDigit c = (decDigit c \<noteq> None)"

text \<open>One group \<^verbatim>\<open>(?:(\d+)X)?\<close>: the captured digits if it matches, and the rest.\<close>

definition matchGroup :: "char \<Rightarrow> string \<Rightarrow> string option \<times> string" where
  "matchGroup letter s =
     (let ds = takeWhile isDecDigit s; rest = dropWhile isDecDigit s
      in case rest of [] \<Rightarrow> (None, s)
         | c # rest' \<Rightarrow> if ds \<noteq> [] \<and> c = letter then (Some ds, rest') else (None, s))"

definition orZero :: "string option \<Rightarrow> string" where
  "orZero m = (case m of None \<Rightarrow> ''0'' | Some s \<Rightarrow> s)"

definition parseDurationToSeconds :: "string \<Rightarrow> number" where
  "parseDurationToSeconds iso8601 =
     (case afterPT iso8601 of None \<Rightarrow> Num 0
      | Some s0 \<Rightarrow>
          (let (h, s1) = matchGroup CHR ''H'' s0;
               (m, s2) = matchGroup CHR ''M'' s1;
               (s, s3) = matchGroup CHR ''S'' s2;
               hours = parseInt (orZero h);
               minutes = parseInt (orZero m);
               seconds = parseInt (orZero s)
           in js_add (js_add (js_mul hours (Num 3600)) (js_mul minutes (Num 60))) seconds))"

definition matchesVideoType :: "string \<Rightarrow> VideoType \<Rightarrow> bool" where
  "matchesVideoType durationISO videoType =
     (let totalSeconds = parseDurationToSeconds durationISO
      in if videoType = Shorts
         then js_gt totalSeconds (Num 0) \<and> js_le totalSeconds (Num 180)
         else js_gt totalSeconds (Num 180))"

section \<open>client.ts: the items of the platform's responses\<close>

text \<open>
  The nested objects of the source are flattened, one field for each path that the
  program reads: \<open>si_videoId\<close> is \<^verbatim>\<open>id.videoId\<close>, \<open>si_thumbnailHigh\<close> is
  \<^verbatim>\<open>snippet.thumbnails.high?.url\<close>, \<open>vi_duration\<close> is
  \<^verbatim>\<open>contentDetails.duration\<close>, \<open>ci_uploads\<close> is
  \<^verbatim>\<open>contentDetails?.relatedPlaylists?.uploads\<close>, and the statistics are the
  optional strings of \<^verbatim>\<open>statistics\<close>. \<open>None\<close> is \<^verbatim>\<open>undefined\<close>.
\<close>

record YouTubeSearchItem =
  si_videoId :: string
  si_publishedAt :: string
  si_channelId :: string
  si_title :: string
  si_thumbnailMedium :: "string option"
  si_thumbnailHigh :: "string option"
  si_channelTitle :: string

record YouTubeVideoItem =
  vi_id :: string
  vi_duration :: string
  vi_viewCount :: "string option"
  vi_likeCount :: "string option"
  vi_commentCount :: "string option"

record YouTubeChannelItem =
  ci_id :: string
  ci_uploads :: "string option"
  ci_subscriberCount :: "string option"
  ci_videoCount :: "string option"
  ci_viewCount :: "string option"

record YouTubePlaylistItem =
  pi_videoId :: "string option"

section \<open>analysis.ts\<close>

datatype Label = Excellent | Great | Good | Normal | Bad

record ScoreInfo =
  score :: int
  label :: Label
  color :: string

definition SCORE_PALETTE :: "int \<Rightarrow> string" where
  "SCORE_PALETTE n =
     (if n = 5 then ''#f87171'' else if n = 4 then ''#4ade80''
      else if n = 3 then ''#60a5fa'' else if n = 2 then ''#cbd5e1''
      else ''#64748b'')"

definition calcPerformanceScore :: "number \<Rightarrow> ScoreInfo" where
  "calcPerformanceScore viewToSubscriberRatio =
     (if js_ge viewToSubscriberRatio (Num 5)
      then \<lparr>score = 5, label = Excellent, color = SCORE_PALETTE 5\<rparr>
      else if js_ge viewToSubscriberRatio (Num 3)
      then \<lparr>score = 4, label = Great, color = SCORE_PALETTE 4\<rparr>
      else if js_ge viewToSubscriberRatio (Num 1)
      then \<lparr>score = 3, label = Good, color = SCORE_PALETTE 3\<rparr>
      else if js_ge viewToSubscriberRatio (Num (1 / 2))
      then \<lparr>score = 2, label = Normal, color = SCORE_PALETTE 2\<rparr>
      else \<lparr>score = 1, label = Bad, color = SCORE_PALETTE 1\<rparr>)"

text \<open>\<open>None\<close> is the \<^verbatim>\<open>null\<close> of the source.\<close>

definition calcContributionScore :: "number \<Rightarrow> number \<Rightarrow> ScoreInfo option" where
  "calcContributionScore viewCount channelAvgViews =
     (if js_le channelAvgViews (Num 0) then None
      else let ratio = js_div viewCount channelAvgViews
           in if js_ge ratio (Num 10)
              then Some \<lparr>score = 5, label = Excellent, color = SCORE_PALETTE 5\<rparr>
              else if js_ge ratio (Num 5)
              then Some \<lparr>score = 4, label = Great, color = SCORE_PALETTE 4\<rparr>
              else if js_ge ratio (Num 1)
              then Some \<lparr>score = 3, label = Good, color = SCORE_PALETTE 3\<rparr>
              else if js_ge ratio (Num (1 / 2))
              then Some \<lparr>score = 2, label = Normal, color = SCORE_PALETTE 2\<rparr>
              else Some \<lparr>score = 1, label = Bad, color = SCORE_PALETTE 1\<rparr>)"

text \<open>\<^verbatim>\<open>parseInt(x ?? "0")\<close> on an optional statistic.\<close>

definition parseCount :: "string option \<Rightarrow> number" where
  "parseCount x = parseInt (case x of None \<Rightarrow> ''0'' | Some s \<Rightarrow> s)"


record VideoResult =
  id' :: string
  title :: string
  thumbnail :: string
  channelId :: string
  channelTitle :: string
  publishedAt :: string
  viewCount :: number
  likeCount :: "number option"
  subscriberCount :: number
  totalVideoCount :: number
  viewToSubscriberRatio :: number
  likeToSubscriberRatio :: "number option"
  duration :: string
  performanceScore :: ScoreInfo
  contributionScore :: "ScoreInfo option"
  channelAvgViews :: "number option"

text \<open>An option that is not set, or set to \<^verbatim>\<open>null\<close>, is \<open>None\<close>.\<close>

record BuildFilterOptions =
  minViewCount :: "number option"
  maxSubscriberCount :: "number option"

text \<open>\<^verbatim>\<open>new Map(entries)\<close>: of two entries with one key the later one stays.\<close>

definition newMap :: "('k \<times> 'v) list \<Rightarrow> ('k \<rightharpoonup> 'v)" where
  "newMap entries = map_of (rev entries)"

text \<open>
  The body of the loop of \<^verbatim>\<open>buildAndFilterResults\<close> after its test of the budget:
  \<open>None\<close> is \<^verbatim>\<open>continue\<close>, \<open>Some r\<close> is the record that is pushed.
\<close>

definition buildRecord ::
  "(string \<rightharpoonup> YouTubeVideoItem) \<Rightarrow> (string \<rightharpoonup> YouTubeChannelItem) \<Rightarrow> VideoType \<Rightarrow>
   (string \<rightharpoonup> number) \<Rightarrow> BuildFilterOptions \<Rightarrow> YouTubeSearchItem \<Rightarrow> VideoResult option" where
  "buildRecord videoMap channelMap videoType channelAvgMap filters searchItem =
     (let videoId = si_videoId searchItem;
          channelId = si_channelId searchItem
      in case videoMap videoId of None \<Rightarrow> None
         | Some videoDetail \<Rightarrow>
      (case channelMap channelId of None \<Rightarrow> None
         | Some channelDetail \<Rightarrow>
      (let duration = vi_duration videoDetail
       in if \<not> matchesVideoType duration videoType then None
          else
      (let viewCount = parseCount (vi_viewCount videoDetail);
           likeCount = map_option parseInt (vi_likeCount videoDetail);
           subscriberCount = parseCount (ci_subscriberCount channelDetail);
           totalVideoCount = parseCount (ci_videoCount channelDetail)
       in if js_eq subscriberCount (Num 0) then None
          else if (case maxSubscriberCount filters of None \<Rightarrow> False
                   | Some m \<Rightarrow> js_gt subscriberCount m) then None
          else if js_lt viewCount subscriberCount then None
          else if (case minViewCount filters of None \<Rightarrow> False
                   | Some m \<Rightarrow> js_lt viewCount m) then None
          else
      (let viewToSubscriberRatio = toFixed_parseFloat 2 (js_div viewCount subscriberCount);
           likeToSubscriberRatio =
             map_option (\<lambda>l. toFixed_parseFloat 4 (js_div l subscriberCount)) likeCount;
           thumbnail = (case si_thumbnailHigh searchItem of Some u \<Rightarrow> u
                        | None \<Rightarrow> (case si_thumbnailMedium searchItem of Some u \<Rightarrow> u
                                    | None \<Rightarrow> []));
           performanceScore = calcPerformanceScore viewToSubscriberRatio;
           channelAvgViews = channelAvgMap channelId;
           contributionScore =
             (case channelAvgViews of None \<Rightarrow> None
              | Some a \<Rightarrow> if js_gt a (Num 0) then calcContributionScore viewCount a else None)
       in Some \<lparr>id' = videoId, title = si_title searchItem, thumbnail = thumbnail,
                 channelId = channelId, channelTitle = si_channelTitle searchItem,
                 publishedAt = si_publishedAt searchItem, viewCount = viewCount,
                 likeCount = likeCount, subscriberCount = subscriberCount,
                 totalVideoCount = totalVideoCount,
                 viewToSubscriberRatio = viewToSubscriberRatio,
                 likeToSubscriberRatio = likeToSubscriberRatio, duration = duration,
                 performanceScore = performanceScore, contributionScore = contributionScore,
                 channelAvgViews = channelAvgViews\<rparr>)))))"

text \<open>
  The loop over \<^verbatim>\<open>searchItems\<close>: it breaks once \<^verbatim>\<open>results.length >= maxResults\<close>,
  and pushes at the end of \<^verbatim>\<open>results\<close>.
\<close>

fun collectResults ::
  "number \<Rightarrow> (YouTubeSearchItem \<Rightarrow> VideoResult option) \<Rightarrow> YouTubeSearchItem list \<Rightarrow>
   VideoResult list \<Rightarrow> VideoResult list" where
  "collectResults maxResults body [] results = results"
| "collectResults maxResults body (searchItem # rest) results =
     (if js_ge (Num (of_int (int (length results)))) maxResults then results
      else case body searchItem of
             None \<Rightarrow> collectResults maxResults body rest results
           | Some r \<Rightarrow> collectResults maxResults body rest (results @ [r]))"

text \<open>
  The comparator of the final sort:
  \<^verbatim>\<open>b.performanceScore.score - a.performanceScore.score || b.viewToSubscriberRatio - a.viewToSubscriberRatio\<close>.
\<close>

definition compareResults :: "VideoResult \<Rightarrow> VideoResult \<Rightarrow> number" where
  "compareResults a b =
     js_or (Num (of_int (score (performanceScore b) - score (performanceScore a))))
           (js_sub (viewToSubscriberRatio b) (viewToSubscriberRatio a))"

text \<open>
  \<^verbatim>\<open>Array.prototype.sort(comparefn)\<close>: a stable sort, in which \<open>x\<close> goes behind \<open>y\<close>
  when \<open>comparefn(x, y) > 0\<close>; a comparator's NaN counts as \<open>0\<close>. The language fixes the
  result when the comparator is consistent, and the result is then the one of the stable
  insertion sort below; for an inconsistent comparator the language leaves the order to
  the engine, and the insertion sort is one such order.
\<close>

fun insertSorted :: "('a \<Rightarrow> 'a \<Rightarrow> number) \<Rightarrow> 'a \<Rightarrow> 'a list \<Rightarrow> 'a list" where
  "insertSorted comparefn x [] = [x]"
| "insertSorted comparefn x (y # ys) =
     (if js_gt (comparefn x y) (Num 0) then y # insertSorted comparefn x ys else x # y # ys)"

definition array_sort :: "('a \<Rightarrow> 'a \<Rightarrow> number) \<Rightarrow> 'a list \<Rightarrow> 'a list" where
  "array_sort comparefn xs = foldr (insertSorted comparefn) xs []"

text \<open>
  The two parameters with a default are options: \<open>None\<close> is the call without the
  argument, \<^verbatim>\<open>filters = {}\<close> and \<^verbatim>\<open>maxResults = 30\<close>.
\<close>

definition buildAndFilterResults ::
  "YouTubeSearchItem list \<Rightarrow> YouTubeVideoItem list \<Rightarrow> YouTubeChannelItem list \<Rightarrow> VideoType \<Rightarrow>
   (string \<rightharpoonup> number) \<Rightarrow> BuildFilterOptions option \<Rightarrow> number option \<Rightarrow> VideoResult list" where
  "buildAndFilterResults searchItems videoItems channelItems videoType channelAvgMap
       filtersArg maxResultsArg =
     (let filters = (case filtersArg of
                       None \<Rightarrow> \<lparr>minViewCount = None, maxSubscriberCount = None\<rparr>
                     | Some f \<Rightarrow> f);
          maxResults = (case maxResultsArg of None \<Rightarrow> Num 30 | Some n \<Rightarrow> n);
          videoMap = newMap (map (\<lambda>v. (vi_id v, v)) videoItems);
          channelMap = newMap (map (\<lambda>c. (ci_id c, c)) channelItems);
          results = collectResults maxResults
                      (buildRecord videoMap channelMap videoType channelAvgMap filters)
                      searchItems []
      in array_sort compareResults results)"

section \<open>client.ts: the fetch wrapper\<close>

datatype YouTubeErrorCode =
  INVALID_API_KEY | QUOTA_EXCEEDED | FORBIDDEN | NOT_FOUND | NETWORK_ERROR | UNKNOWN

record YouTubeAPIError =
  message :: string
  code :: YouTubeErrorCode
  status :: "nat option"

text \<open>
  What \<^verbatim>\<open>fetch\<close> gives: it throws, or it returns a response. Of a response the
  wrapper reads the status, \<^verbatim>\<open>errorBody?.error?.errors?.[0]?.reason\<close> and
  \<^verbatim>\<open>errorBody?.error?.message\<close> (\<open>None\<close> when the body is not JSON or the path is
  absent), and the parsed body (\<open>None\<close> when the body is not JSON, and
  \<^verbatim>\<open>res.json()\<close> rejects). \<^verbatim>\<open>res.ok\<close> is a status from 200 to 299.
\<close>

record 'a Response =
  res_status :: nat
  res_errorReason :: "string option"
  res_errorMessage :: "string option"
  res_json :: "'a option"

datatype 'a FetchOutcome = FetchThrows | FetchReturns "'a Response"

datatype Rejection = APIError YouTubeAPIError | JsonSyntaxError

definition res_ok :: "'a Response \<Rightarrow> bool" where
  "res_ok res = (200 \<le> res_status res \<and> res_status res \<le> 299)"

text \<open>
  The fixed messages of the source are Korean sentences; they are rendered in ASCII
  here, and no property below depends on their wording.
\<close>

definition MSG_NETWORK :: string where
  "MSG_NETWORK = ''YouTube API network error.''"

definition MSG_DEFAULT :: string where
  "MSG_DEFAULT = ''YouTube API error.''"

definition MSG_INVALID_KEY :: string where
  "MSG_INVALID_KEY = ''Invalid API key. Please check the key.''"

definition MSG_QUOTA :: string where
  "MSG_QUOTA = ''YouTube API daily quota exceeded.''"

definition MSG_FORBIDDEN_PREFIX :: string where
  "MSG_FORBIDDEN_PREFIX = ''Access denied: ''"

definition MSG_NOT_FOUND :: string where
  "MSG_NOT_FOUND = ''Resource not found.''"

definition youtubeFetch :: "'a FetchOutcome \<Rightarrow> Rejection + 'a" where
  "youtubeFetch outcome =
     (case outcome of
        FetchThrows \<Rightarrow>
          Inl (APIError \<lparr>message = MSG_NETWORK, code = NETWORK_ERROR, status = None\<rparr>)
      | FetchReturns res \<Rightarrow>
          if \<not> res_ok res then
            (let reason = (case res_errorReason res of None \<Rightarrow> ''unknown'' | Some r \<Rightarrow> r);
                 msg = (case res_errorMessage res of None \<Rightarrow> MSG_DEFAULT | Some m \<Rightarrow> m)
             in if res_status res = 400 \<or> reason = ''keyInvalid'' \<or> reason = ''badRequest''
                then Inl (APIError \<lparr>message = MSG_INVALID_KEY, code = INVALID_API_KEY,
                                    status = Some (res_status res)\<rparr>)
                else if res_status res = 403
                then (if reason = ''quotaExceeded'' \<or> reason = ''dailyLimitExceeded''
                      then Inl (APIError \<lparr>message = MSG_QUOTA, code = QUOTA_EXCEEDED,
                                          status = Some (res_status res)\<rparr>)
                      else Inl (APIError \<lparr>message = MSG_FORBIDDEN_PREFIX @ msg,
                                          code = FORBIDDEN, status = Some (res_status res)\<rparr>))
                else if res_status res = 404
                then Inl (APIError \<lparr>message = MSG_NOT_FOUND, code = NOT_FOUND,
                                    status = Some (res_status res)\<rparr>)
                else Inl (APIError \<lparr>message = msg, code = UNKNOWN,
                                    status = Some (res_status res)\<rparr>))
          else (case res_json res of None \<Rightarrow> Inl JsonSyntaxError | Some body \<Rightarrow> Inr body))"

text \<open>
  The body of a list response, \<^verbatim>\<open>{ items?: T[]; nextPageToken?: string }\<close>. Each
  operation takes the outcome of its one call of \<^verbatim>\<open>fetch\<close> as an argument.
\<close>

record 'a ListBody =
  items :: "'a list option"
  nextPageToken :: "string option"

definition itemsOrEmpty :: "'a ListBody \<Rightarrow> 'a list" where
  "itemsOrEmpty body = (case items body of None \<Rightarrow> [] | Some xs \<Rightarrow> xs)"

definition searchVideos ::
  "YouTubeSearchItem ListBody FetchOutcome \<Rightarrow> Rejection + (YouTubeSearchItem list \<times> string option)" where
  "searchVideos outcome =
     (case youtubeFetch outcome of Inl e \<Rightarrow> Inl e
      | Inr body \<Rightarrow> Inr (itemsOrEmpty body, nextPageToken body))"

definition getVideoDetails ::
  "string list \<Rightarrow> YouTubeVideoItem ListBody FetchOutcome \<Rightarrow> Rejection + YouTubeVideoItem list" where
  "getVideoDetails videoIds outcome =
     (if length videoIds = 0 then Inr []
      else case youtubeFetch outcome of Inl e \<Rightarrow> Inl e
           | Inr body \<Rightarrow> Inr (itemsOrEmpty body))"

definition getChannelDetails ::
  "string list \<Rightarrow> YouTubeChannelItem ListBody FetchOutcome \<Rightarrow> Rejection + YouTubeChannelItem list" where
  "getChannelDetails channelIds outcome =
     (if length channelIds = 0 then Inr []
      else case youtubeFetch outcome of Inl e \<Rightarrow> Inl e
           | Inr body \<Rightarrow> Inr (itemsOrEmpty body))"

definition getPlaylistItems ::
  "YouTubePlaylistItem ListBody FetchOutcome \<Rightarrow> Rejection + YouTubePlaylistItem list" where
  "getPlaylistItems outcome =
     (case youtubeFetch outcome of Inl e \<Rightarrow> Inl e
      | Inr body \<Rightarrow> Inr (itemsOrEmpty body))"

section \<open>route.ts: the stages of POST that use the functions above\<close>





text \<open>
  Stage 4 and the response of a request that succeeds: the early answer for an empty
  search, and otherwise the records of \<^verbatim>\<open>buildAndFilterResults\<close> with their number.
\<close>

record SearchResponse =
  videos :: "VideoResult list"
  total :: nat

definition POST_response ::
  "YouTubeSearchItem list \<Rightarrow> YouTubeVideoItem list \<Rightarrow> YouTubeChannelItem list \<Rightarrow> VideoType \<Rightarrow>
   (string \<rightharpoonup> number) \<Rightarrow> number option \<Rightarrow> number option \<Rightarrow> SearchResponse" where
  "POST_response allSearchItems videoItems channelItems videoType channelAvgMap
       minViewCountArg maxSubscriberCountArg =
     (if length allSearchItems = 0 then \<lparr>videos = [], total = 0\<rparr>
      else
       (let filters = \<lparr>minViewCount =
                         (case minViewCountArg of None \<Rightarrow> None
                          | Some m \<Rightarrow> if js_gt m (Num 0) then Some m else None),
                       maxSubscriberCount = maxSubscriberCountArg\<rparr>;
            results = buildAndFilterResults allSearchItems videoItems channelItems videoType
                        channelAvgMap (Some filters) (Some (Num 100))
        in \<lparr>videos = results, total = length results\<rparr>))"

section \<open>Auxiliary notions and example data\<close>

text \<open>A count as the platform sends it: a non-empty string of decimal digits.\<close>

definition decimal :: "string \<Rightarrow> bool" where
  "decimal s = (s \<noteq> [] \<and> list_all isDecDigit s)"

definition decimalCount :: "string option \<Rightarrow> bool" where
  "decimalCount x = (case x of None \<Rightarrow> True | Some s \<Rightarrow> decimal s)"

text \<open>
  The accumulator \<^verbatim>\<open>results\<close> of \<open>buildAndFilterResults\<close> when the loop is left,
  before the sort.
\<close>

definition resultsBeforeSort ::
  "YouTubeSearchItem list \<Rightarrow> YouTubeVideoItem list \<Rightarrow> YouTubeChannelItem list \<Rightarrow> VideoType \<Rightarrow>
   (string \<rightharpoonup> number) \<Rightarrow> BuildFilterOptions option \<Rightarrow> number option \<Rightarrow> VideoResult list" where
  "resultsBeforeSort searchItems videoItems channelItems videoType channelAvgMap
       filtersArg maxResultsArg =
     collectResults (case maxResultsArg of None \<Rightarrow> Num 30 | Some n \<Rightarrow> n)
       (buildRecord (newMap (map (\<lambda>v. (vi_id v, v)) videoItems))
          (newMap (map (\<lambda>c. (ci_id c, c)) channelItems)) videoType channelAvgMap
          (case filtersArg of None \<Rightarrow> \<lparr>minViewCount = None, maxSubscriberCount = None\<rparr>
           | Some f \<Rightarrow> f))
       searchItems []"


text \<open>
  The sort key of a record whose ratio is a number: the negated score and the negated
  ratio, so that the ascending lexicographic order of the keys is the order of the sort.
\<close>

fun numVal :: "number \<Rightarrow> rat" where
  "numVal (Num x) = x"
| "numVal NaN = 0"

definition sortKey :: "VideoResult \<Rightarrow> int \<times> rat" where
  "sortKey r = (- score (performanceScore r), - numVal (viewToSubscriberRatio r))"

text \<open>The error code and the message that a call rejects with, if it does.\<close>

definition rejectedCode :: "Rejection + 'a \<Rightarrow> YouTubeErrorCode option" where
  "rejectedCode r = (case r of Inl (APIError e) \<Rightarrow> Some (code e) | _ \<Rightarrow> None)"

definition rejectedMessage :: "Rejection + 'a \<Rightarrow> string option" where
  "rejectedMessage r = (case r of Inl (APIError e) \<Rightarrow> Some (message e) | _ \<Rightarrow> None)"

text \<open>
  The reason that the wrapper reads from an error body, and the two groups of reasons
  that it tests for.
\<close>

definition reasonOf :: "'a Response \<Rightarrow> string" where
  "reasonOf res = (case res_errorReason res of None \<Rightarrow> ''unknown'' | Some r \<Rightarrow> r)"

definition malformedKeyReason :: "'a Response \<Rightarrow> bool" where
  "malformedKeyReason res = (reasonOf res = ''keyInvalid'' \<or> reasonOf res = ''badRequest'')"

definition quotaReason :: "'a Response \<Rightarrow> bool" where
  "quotaReason res = (reasonOf res = ''quotaExceeded'' \<or> reasonOf res = ''dailyLimitExceeded'')"



subsection \<open>Example data\<close>

definition searchItemOf :: "string \<Rightarrow> string \<Rightarrow> YouTubeSearchItem" where
  "searchItemOf videoId channel =
     \<lparr>si_videoId = videoId, si_publishedAt = ''2024-05-01T00:00:00Z'', si_channelId = channel,
      si_title = ''title'', si_thumbnailMedium = None, si_thumbnailHigh = None,
      si_channelTitle = ''channel''\<rparr>"

definition videoItemOf :: "string \<Rightarrow> string \<Rightarrow> string \<Rightarrow> YouTubeVideoItem" where
  "videoItemOf videoId dur views =
     \<lparr>vi_id = videoId, vi_duration = dur, vi_viewCount = Some views, vi_likeCount = None,
      vi_commentCount = None\<rparr>"

definition channelItemOf :: "string \<Rightarrow> string \<Rightarrow> YouTubeChannelItem" where
  "channelItemOf channel subscribers =
     \<lparr>ci_id = channel, ci_uploads = None, ci_subscriberCount = Some subscribers,
      ci_videoCount = None, ci_viewCount = None\<rparr>"

definition ex_searchItems :: "YouTubeSearchItem list" where
  "ex_searchItems = [searchItemOf ''v1'' ''c1'', searchItemOf ''v2'' ''c1'']"

definition ex_searchItems_swapped :: "YouTubeSearchItem list" where
  "ex_searchItems_swapped = [searchItemOf ''v2'' ''c1'', searchItemOf ''v1'' ''c1'']"

definition ex_videoItems :: "YouTubeVideoItem list" where
  "ex_videoItems = [videoItemOf ''v1'' ''PT10M'' ''1000000'', videoItemOf ''v2'' ''PT10M'' ''1000000'']"

definition ex_channelItems :: "YouTubeChannelItem list" where
  "ex_channelItems = [channelItemOf ''c1'' ''200000'']"

definition ex_channelAvgMap :: "string \<rightharpoonup> number" where
  "ex_channelAvgMap = [''c1'' \<mapsto> Num 50000]"


text \<open>Counts that are strings, but not what the platform sends.\<close>

definition ex_videoItems_negative :: "YouTubeVideoItem list" where
  "ex_videoItems_negative = [videoItemOf ''v1'' ''PT10M'' ''-3'']"

definition ex_channelItems_negative :: "YouTubeChannelItem list" where
  "ex_channelItems_negative = [channelItemOf ''c1'' ''-5'']"


text \<open>Responses: one that is not ok, and one that is ok with a list body.\<close>

definition errorResponse ::
  "nat \<Rightarrow> string option \<Rightarrow> string option \<Rightarrow> YouTubeVideoItem ListBody Response" where
  "errorResponse st reason msg =
     \<lparr>res_status = st, res_errorReason = reason, res_errorMessage = msg, res_json = None\<rparr>"

definition okResponse :: "'a list option \<Rightarrow> 'a ListBody Response" where
  "okResponse xs =
     \<lparr>res_status = 200, res_errorReason = None, res_errorMessage = None,
      res_json = Some \<lparr>items = xs, nextPageToken = None\<rparr>\<rparr>"




text \<open>\<open>n\<close> search items of one channel with \<open>n\<close> videos of distinct ids.\<close>

definition ex_manyIds :: "nat \<Rightarrow> string list" where
  "ex_manyIds n = map (\<lambda>i. replicate i CHR ''a'') [1..<Suc n]"

definition ex_manySearchItems :: "nat \<Rightarrow> YouTubeSearchItem list" where
  "ex_manySearchItems n = map (\<lambda>i. searchItemOf i ''c1'') (ex_manyIds n)"

definition ex_manyVideoItems :: "nat \<Rightarrow> YouTubeVideoItem list" where
  "ex_manyVideoItems n = map (\<lambda>i. videoItemOf i ''PT10M'' ''1000000'') (ex_manyIds n)"



section \<open>Parsing of decimal strings\<close>

lemma indexOf_bounds: "indexOf c ds i = Some d \<Longrightarrow> c \<in> set ds \<and> i \<le> d"
proof (induction ds arbitrary: i)
  case Nil
  then show ?case by simp
next
  case (Cons e es)
  show ?case
  proof (cases "c = e")
    case True
    then show ?thesis using Cons.prems by simp
  next
    case False
    then have "indexOf c es (i + 1) = Some d" using Cons.prems by simp
    from Cons.IH [OF this] show ?thesis by simp
  qed
qed

lemma isDecDigit_cases: "isDecDigit c \<Longrightarrow> c \<in> set ''0123456789''"
  unfolding isDecDigit_def decDigit_def using indexOf_bounds by fastforce

lemma decDigit_nonneg: "decDigit c = Some d \<Longrightarrow> 0 \<le> d"
  unfolding decDigit_def using indexOf_bounds by fastforce

lemma digitsValue_nonneg: "0 \<le> acc \<Longrightarrow> 0 \<le> digitsValue decDigit 10 s acc"
proof (induction s arbitrary: acc)
  case Nil then show ?case by simp
next
  case (Cons c cs)
  show ?case
  proof (cases "decDigit c")
    case None then show ?thesis using Cons.prems by simp
  next
    case (Some d)
    have "0 \<le> acc * 10 + d" using Cons.prems decDigit_nonneg[OF Some] by simp
    then show ?thesis using Some Cons.IH by simp
  qed
qed

lemma parseInt_decimal:
  assumes "decimal s"
  shows "\<exists>n. 0 \<le> n \<and> parseInt s = Num (of_int n)"
proof -
  from assms obtain c cs where s: "s = c # cs" and c: "isDecDigit c" and cs: "list_all isDecDigit cs"
    by (cases s) (auto simp: decimal_def)
  have nws: "\<not> isWhiteSpace c" using isDecDigit_cases[OF c] by (auto simp: isWhiteSpace_def)
  have nsign: "c \<noteq> CHR ''-''" "c \<noteq> CHR ''+''" using isDecDigit_cases[OF c] by auto
  have nhex: "take (Suc 0) cs \<noteq> ''x''" "take (Suc 0) cs \<noteq> ''X''"
  proof -
    have "\<And>e es. cs = e # es \<Longrightarrow> e \<noteq> CHR ''x'' \<and> e \<noteq> CHR ''X''"
    proof -
      fix e es assume "cs = e # es"
      then have "isDecDigit e" using cs by simp
      then show "e \<noteq> CHR ''x'' \<and> e \<noteq> CHR ''X''" using isDecDigit_cases[of e] by auto
    qed
    then show "take (Suc 0) cs \<noteq> ''x''" "take (Suc 0) cs \<noteq> ''X''"
      by (cases cs; simp)+
  qed
  obtain d where d: "decDigit c = Some d" using c by (auto simp: isDecDigit_def)
  have "parseInt s = Num (of_int (digitsValue decDigit 10 s 0))"
    using nws nsign nhex d unfolding parseInt_def parseDigits_def Let_def s
    by simp
  moreover have "0 \<le> digitsValue decDigit 10 s 0" by (rule digitsValue_nonneg) simp
  ultimately show ?thesis by blast
qed




section \<open>The join and the loop\<close>

lemma newMap_SomeD: "newMap (map (\<lambda>v. (f v, v)) xs) k = Some v \<Longrightarrow> v \<in> set xs \<and> f v = k"
  unfolding newMap_def by (auto dest!: map_of_SomeD)

lemma collectResults_mem:
  "r \<in> set (collectResults mx body searchItems acc) \<Longrightarrow>
     r \<in> set acc \<or> (\<exists>s\<in>set searchItems. body s = Some r)"
proof (induction searchItems arbitrary: acc)
  case Nil
  then show ?case by simp
next
  case (Cons s rest)
  show ?case
  proof (cases "js_ge (Num (of_int (int (length acc)))) mx")
    case True
    then show ?thesis using Cons.prems by simp
  next
    case False
    show ?thesis
    proof (cases "body s")
      case None
      then have "r \<in> set (collectResults mx body rest acc)" using Cons.prems False by simp
      from Cons.IH [OF this] show ?thesis by auto
    next
      case (Some r')
      then have "r \<in> set (collectResults mx body rest (acc @ [r']))"
        using Cons.prems False by simp
      from Cons.IH [OF this] show ?thesis using Some by auto
    qed
  qed
qed

lemma collectResults_length:
  "length acc \<le> n \<Longrightarrow> length (collectResults (Num (of_int (int n))) body searchItems acc) \<le> n"
proof (induction searchItems arbitrary: acc)
  case Nil
  then show ?case by simp
next
  case (Cons s rest)
  show ?case
  proof (cases "n \<le> length acc")
    case True
    then show ?thesis using Cons.prems by simp
  next
    case False
    then have "length (acc @ [r']) \<le> n" for r' :: VideoResult by simp
    then show ?thesis using False Cons.IH Cons.prems by (simp split: option.splits)
  qed
qed

lemma buildRecord_SomeD:
  assumes "buildRecord vm cm vt am f s = Some r"
  shows "\<exists>vd cd. vm (si_videoId s) = Some vd \<and> cm (si_channelId s) = Some cd \<and>
           matchesVideoType (vi_duration vd) vt \<and>
           id' r = si_videoId s \<and> channelId r = si_channelId s \<and>
           viewCount r = parseCount (vi_viewCount vd) \<and>
           subscriberCount r = parseCount (ci_subscriberCount cd) \<and>
           \<not> js_eq (subscriberCount r) (Num 0) \<and>
           \<not> js_lt (viewCount r) (subscriberCount r) \<and>
           viewToSubscriberRatio r =
             toFixed_parseFloat 2 (js_div (viewCount r) (subscriberCount r)) \<and>
           performanceScore r = calcPerformanceScore (viewToSubscriberRatio r) \<and>
           channelAvgViews r = am (si_channelId s) \<and>
           contributionScore r =
             (case am (si_channelId s) of None \<Rightarrow> None
              | Some a \<Rightarrow> if js_gt a (Num 0) then calcContributionScore (viewCount r) a
                          else None)"
  using assms unfolding buildRecord_def Let_def
  by (auto split: option.splits if_splits)

section \<open>The sort\<close>

lemma mset_insertSorted: "mset (insertSorted cmp x ys) = add_mset x (mset ys)"
  by (induction ys) simp_all

lemma mset_array_sort: "mset (array_sort cmp xs) = mset xs"
  unfolding array_sort_def by (induction xs) (simp_all add: mset_insertSorted)

lemma set_array_sort: "set (array_sort cmp xs) = set xs"
  using mset_array_sort [of cmp xs] by (metis set_mset_mset)

lemma length_array_sort: "length (array_sort cmp xs) = length xs"
  using mset_array_sort [of cmp xs] by (metis size_mset)

lemma buildAndFilterResults_sort:
  "buildAndFilterResults searchItems videoItems channelItems videoType channelAvgMap
       filtersArg maxResultsArg =
   array_sort compareResults
     (resultsBeforeSort searchItems videoItems channelItems videoType channelAvgMap
        filtersArg maxResultsArg)"
  by (simp add: buildAndFilterResults_def resultsBeforeSort_def Let_def)

lemma emitted_record:
  assumes "r \<in> set (buildAndFilterResults searchItems videoItems channelItems videoType
                       channelAvgMap filtersArg maxResultsArg)"
  shows "\<exists>s\<in>set searchItems.
           buildRecord (newMap (map (\<lambda>v. (vi_id v, v)) videoItems))
             (newMap (map (\<lambda>c. (ci_id c, c)) channelItems)) videoType channelAvgMap
             (case filtersArg of None \<Rightarrow> \<lparr>minViewCount = None, maxSubscriberCount = None\<rparr>
              | Some f \<Rightarrow> f) s = Some r"
proof -
  from assms have "r \<in> set (resultsBeforeSort searchItems videoItems channelItems videoType
                       channelAvgMap filtersArg maxResultsArg)"
    by (simp add: buildAndFilterResults_sort set_array_sort)
  then show ?thesis
    unfolding resultsBeforeSort_def by (auto dest: collectResults_mem)
qed

lemma compareResults_gt_iff:
  assumes "viewToSubscriberRatio x \<noteq> NaN" "viewToSubscriberRatio y \<noteq> NaN"
  shows "js_gt (compareResults x y) (Num 0) \<longleftrightarrow> sortKey y < sortKey x"
proof -
  obtain p q where "viewToSubscriberRatio x = Num p" "viewToSubscriberRatio y = Num q"
    using assms by (cases "viewToSubscriberRatio x"; cases "viewToSubscriberRatio y") auto
  then show ?thesis
    by (auto simp: compareResults_def sortKey_def less_prod_def)
qed

lemma insertSorted_insort_key:
  assumes "viewToSubscriberRatio x \<noteq> NaN" "\<forall>y\<in>set ys. viewToSubscriberRatio y \<noteq> NaN"
  shows "insertSorted compareResults x ys = insort_key sortKey x ys"
  using assms
proof (induction ys)
  case Nil
  then show ?case by simp
next
  case (Cons y ys)
  then have "js_gt (compareResults x y) (Num 0) \<longleftrightarrow> \<not> sortKey x \<le> sortKey y"
    using compareResults_gt_iff [of x y] by (simp add: not_le)
  then show ?case using Cons by simp
qed

lemma array_sort_sort_key:
  assumes "\<forall>x\<in>set xs. viewToSubscriberRatio x \<noteq> NaN"
  shows "array_sort compareResults xs = sort_key sortKey xs"
  using assms
proof (induction xs)
  case Nil
  then show ?case by (simp add: array_sort_def)
next
  case (Cons x xs)
  then have "array_sort compareResults xs = sort_key sortKey xs" by simp
  moreover have "array_sort compareResults (x # xs) =
                   insertSorted compareResults x (array_sort compareResults xs)"
    by (simp add: array_sort_def)
  ultimately show ?case using Cons.prems by (simp add: insertSorted_insort_key)
qed


section \<open>Counts are integers\<close>

lemma parseInt_integer: "parseInt s = NaN \<or> (\<exists>n. parseInt s = Num (of_int n))"
proof -
  have "\<exists>n. Num (- rat_of_int k) = Num (of_int n)" for k
    by (rule exI [of _ "- k"]) simp
  then show ?thesis
    unfolding parseInt_def Let_def by (auto split: option.splits)
qed

lemma parseCount_integer: "parseCount x = NaN \<or> (\<exists>n. parseCount x = Num (of_int n))"
  unfolding parseCount_def by (rule parseInt_integer)

lemma parseCount_decimal:
  assumes "decimalCount x"
  shows "\<exists>n. 0 \<le> n \<and> parseCount x = Num (of_int n)"
proof (cases x)
  case None
  have "decimal ''0''" by (simp add: decimal_def isDecDigit_def decDigit_def)
  then show ?thesis using None parseInt_decimal by (simp add: parseCount_def)
next
  case (Some s)
  then have "decimal s" using assms by (simp add: decimalCount_def)
  then show ?thesis using Some parseInt_decimal by (simp add: parseCount_def)
qed

lemma subscribers_at_least_one:
  assumes "\<not> js_eq (parseCount x) (Num 0)" "js_ge (parseCount x) (Num 0)"
  shows "js_ge (parseCount x) (Num 1)"
proof -
  from assms(2) parseCount_integer [of x] obtain n where n: "parseCount x = Num (of_int n)"
    by auto
  with assms have "n \<noteq> 0" "0 \<le> n" by auto
  then have "1 \<le> n" by simp
  then show ?thesis using n by simp
qed

section \<open>The duration classifier\<close>




section \<open>The two scores\<close>

text \<open>
  Claim C2. For every ratio \<open>r\<close> (non-negative or not), \<open>calcPerformanceScore\<close> gives
  5 Excellent when \<open>r \<ge> 5\<close>, 4 Great when \<open>3 \<le> r < 5\<close>, 3 Good when \<open>1 \<le> r < 3\<close>,
  2 Normal when \<open>1/2 \<le> r < 1\<close> and 1 Bad when \<open>r < 1/2\<close>; and the ratio that
  \<open>buildAndFilterResults\<close> computes from the counts 1000000 and 200000 is 5.00, which
  scores 5 Excellent.
\<close>

theorem calcPerformanceScore_tiers:
  "(5 \<le> r \<longrightarrow> calcPerformanceScore (Num r) =
      \<lparr>score = 5, label = Excellent, color = SCORE_PALETTE 5\<rparr>) \<and>
   (3 \<le> r \<and> r < 5 \<longrightarrow> calcPerformanceScore (Num r) =
      \<lparr>score = 4, label = Great, color = SCORE_PALETTE 4\<rparr>) \<and>
   (1 \<le> r \<and> r < 3 \<longrightarrow> calcPerformanceScore (Num r) =
      \<lparr>score = 3, label = Good, color = SCORE_PALETTE 3\<rparr>) \<and>
   (1 / 2 \<le> r \<and> r < 1 \<longrightarrow> calcPerformanceScore (Num r) =
      \<lparr>score = 2, label = Normal, color = SCORE_PALETTE 2\<rparr>) \<and>
   (r < 1 / 2 \<longrightarrow> calcPerformanceScore (Num r) =
      \<lparr>score = 1, label = Bad, color = SCORE_PALETTE 1\<rparr>) \<and>
   toFixed_parseFloat 2 (js_div (parseInt ''1000000'') (parseInt ''200000'')) = Num 5 \<and>
   calcPerformanceScore
     (toFixed_parseFloat 2 (js_div (parseInt ''1000000'') (parseInt ''200000''))) =
      \<lparr>score = 5, label = Excellent, color = SCORE_PALETTE 5\<rparr>"
proof -
  have "toFixed_parseFloat 2 (js_div (parseInt ''1000000'') (parseInt ''200000'')) = Num 5"
    by code_simp
  then show ?thesis by (simp add: calcPerformanceScore_def)
qed

theorem calcPerformanceScore_tiers_witness:
  "(5::rat) \<le> 7 \<and> score (calcPerformanceScore (Num 7)) = 5 \<and>
   (3::rat) \<le> 4 \<and> (4::rat) < 5 \<and> label (calcPerformanceScore (Num 4)) = Great \<and>
   (1::rat) \<le> 1 \<and> (1::rat) < 3 \<and> score (calcPerformanceScore (Num 1)) = 3 \<and>
   (1::rat) / 2 \<le> 3 / 4 \<and> (3::rat) / 4 < 1 \<and> label (calcPerformanceScore (Num (3 / 4))) = Normal \<and>
   (0::rat) < 1 / 2 \<and> score (calcPerformanceScore (Num 0)) = 1"
  using calcPerformanceScore_tiers [of 7] calcPerformanceScore_tiers [of 4]
    calcPerformanceScore_tiers [of 1] calcPerformanceScore_tiers [of "3 / 4"]
    calcPerformanceScore_tiers [of 0]
  by simp



section \<open>The result engine\<close>

text \<open>
  Claim C1, as the code has it. Every record that \<open>buildAndFilterResults\<close> emits was
  built from a search item whose video and channel were both found in the join, its
  \<open>subscriberCount\<close> is not \<open>0\<close> and its \<open>viewCount\<close> is not less than its
  \<open>subscriberCount\<close>. When the \<open>subscriberCount\<close> is a number that is not negative, it
  is at least 1, and when the \<open>viewCount\<close> is a number as well, it is at least the
  \<open>subscriberCount\<close>; both hold when the two counts of the joined items are absent or
  strings of decimal digits, which is what the platform sends.
\<close>

theorem emitted_counts:
  assumes "r \<in> set (buildAndFilterResults searchItems videoItems channelItems videoType
                       channelAvgMap filtersArg maxResultsArg)"
  shows "\<exists>s vd cd. s \<in> set searchItems \<and> vd \<in> set videoItems \<and> cd \<in> set channelItems \<and>
           vi_id vd = si_videoId s \<and> ci_id cd = si_channelId s \<and>
           id' r = vi_id vd \<and> channelId r = ci_id cd \<and>
           viewCount r = parseCount (vi_viewCount vd) \<and>
           subscriberCount r = parseCount (ci_subscriberCount cd) \<and>
           \<not> js_eq (subscriberCount r) (Num 0) \<and>
           \<not> js_lt (viewCount r) (subscriberCount r) \<and>
           (js_ge (subscriberCount r) (Num 0) \<longrightarrow> js_ge (subscriberCount r) (Num 1)) \<and>
           (js_ge (subscriberCount r) (Num 0) \<and> viewCount r \<noteq> NaN \<longrightarrow>
              js_ge (viewCount r) (subscriberCount r)) \<and>
           (decimalCount (vi_viewCount vd) \<and> decimalCount (ci_subscriberCount cd) \<longrightarrow>
              js_ge (viewCount r) (subscriberCount r) \<and> js_ge (subscriberCount r) (Num 1))"
proof -
  from emitted_record [OF assms] obtain s where s: "s \<in> set searchItems"
    and b: "buildRecord (newMap (map (\<lambda>v. (vi_id v, v)) videoItems))
             (newMap (map (\<lambda>c. (ci_id c, c)) channelItems)) videoType channelAvgMap
             (case filtersArg of None \<Rightarrow> \<lparr>minViewCount = None, maxSubscriberCount = None\<rparr>
              | Some f \<Rightarrow> f) s = Some r"
    by blast
  from buildRecord_SomeD [OF b] obtain vd cd where
    vd: "newMap (map (\<lambda>v. (vi_id v, v)) videoItems) (si_videoId s) = Some vd" and
    cd: "newMap (map (\<lambda>c. (ci_id c, c)) channelItems) (si_channelId s) = Some cd" and
    ids: "id' r = si_videoId s" "channelId r = si_channelId s" and
    vc: "viewCount r = parseCount (vi_viewCount vd)" and
    sc: "subscriberCount r = parseCount (ci_subscriberCount cd)" and
    nz: "\<not> js_eq (subscriberCount r) (Num 0)" and
    nl: "\<not> js_lt (viewCount r) (subscriberCount r)"
    by blast
  from newMap_SomeD [OF vd] have vd': "vd \<in> set videoItems" "vi_id vd = si_videoId s" by auto
  from newMap_SomeD [OF cd] have cd': "cd \<in> set channelItems" "ci_id cd = si_channelId s" by auto
  have one: "js_ge (subscriberCount r) (Num 0) \<longrightarrow> js_ge (subscriberCount r) (Num 1)"
    using nz sc subscribers_at_least_one by simp
  have ge: "js_ge (subscriberCount r) (Num 0) \<and> viewCount r \<noteq> NaN \<longrightarrow>
              js_ge (viewCount r) (subscriberCount r)"
    using nl by (cases "viewCount r"; cases "subscriberCount r") auto
  have dec: "decimalCount (vi_viewCount vd) \<and> decimalCount (ci_subscriberCount cd) \<longrightarrow>
              js_ge (viewCount r) (subscriberCount r) \<and> js_ge (subscriberCount r) (Num 1)"
  proof
    assume d: "decimalCount (vi_viewCount vd) \<and> decimalCount (ci_subscriberCount cd)"
    then obtain m n where "viewCount r = Num (of_int m)" "0 \<le> n"
      "subscriberCount r = Num (of_int n)"
      using parseCount_decimal vc sc by metis
    then have "js_ge (subscriberCount r) (Num 0)" "viewCount r \<noteq> NaN" by simp_all
    then show "js_ge (viewCount r) (subscriberCount r) \<and> js_ge (subscriberCount r) (Num 1)"
      using one ge by simp
  qed
  show ?thesis
    using s vd' cd' ids vc sc nz nl one ge dec by (intro exI [of _ s] exI [of _ vd] exI [of _ cd]) simp
qed

theorem emitted_counts_witness:
  "hd (buildAndFilterResults ex_searchItems ex_videoItems ex_channelItems Longform
         ex_channelAvgMap None None)
     \<in> set (buildAndFilterResults ex_searchItems ex_videoItems ex_channelItems Longform
              ex_channelAvgMap None None) \<and>
   js_ge (viewCount (hd (buildAndFilterResults ex_searchItems ex_videoItems ex_channelItems
            Longform ex_channelAvgMap None None)))
         (subscriberCount (hd (buildAndFilterResults ex_searchItems ex_videoItems
            ex_channelItems Longform ex_channelAvgMap None None))) \<and>
   js_ge (subscriberCount (hd (buildAndFilterResults ex_searchItems ex_videoItems
            ex_channelItems Longform ex_channelAvgMap None None))) (Num 1)"
proof -
  let ?out = "buildAndFilterResults ex_searchItems ex_videoItems ex_channelItems Longform
                ex_channelAvgMap None None"
  have m: "hd ?out \<in> set ?out" by code_simp
  have dv: "list_all (\<lambda>v. decimalCount (vi_viewCount v)) ex_videoItems" by code_simp
  have dc: "list_all (\<lambda>c. decimalCount (ci_subscriberCount c)) ex_channelItems" by code_simp
  from emitted_counts [OF m] obtain vd cd where
    "vd \<in> set ex_videoItems" "cd \<in> set ex_channelItems"
    "decimalCount (vi_viewCount vd) \<and> decimalCount (ci_subscriberCount cd) \<longrightarrow>
       js_ge (viewCount (hd ?out)) (subscriberCount (hd ?out)) \<and>
       js_ge (subscriberCount (hd ?out)) (Num 1)"
    by blast
  with dv dc m show ?thesis by (simp add: list_all_iff)
qed

text \<open>
  Claim C1 as it is stated, for every input, fails: the counts are strings, and with the
  \<open>subscriberCount\<close> \<^verbatim>\<open>"-5"\<close> and the \<open>viewCount\<close> \<^verbatim>\<open>"-3"\<close> the record passes every
  test of the loop and is emitted with \<open>subscriberCount = -5\<close>.
\<close>

theorem negative_subscriberCount_emitted:
  "map subscriberCount
     (buildAndFilterResults [searchItemOf ''v1'' ''c1''] ex_videoItems_negative
        ex_channelItems_negative Longform ex_channelAvgMap None None) = [Num (- 5)] \<and>
   \<not> js_ge (Num (- 5)) (Num 1)"
  by code_simp

text \<open>
  Claim C6. In every emitted record the \<open>contributionScore\<close> is present exactly when
  \<open>channelAvgViews\<close> is present and greater than 0; \<open>channelAvgViews\<close> is the entry
  of the record's channel in the map of the averages; without an entry there is no
  score; and a score that is present is the one \<open>calcContributionScore\<close> computes.
\<close>

theorem contributionScore_present_iff:
  assumes "r \<in> set (buildAndFilterResults searchItems videoItems channelItems videoType
                       channelAvgMap filtersArg maxResultsArg)"
  shows "(contributionScore r \<noteq> None \<longleftrightarrow>
            (\<exists>a. channelAvgViews r = Some a \<and> js_gt a (Num 0))) \<and>
         channelAvgViews r = channelAvgMap (channelId r) \<and>
         (channelAvgMap (channelId r) = None \<longrightarrow> contributionScore r = None) \<and>
         (\<forall>a. channelAvgViews r = Some a \<and> js_gt a (Num 0) \<longrightarrow>
              contributionScore r = calcContributionScore (viewCount r) a)"
proof -
  from emitted_record [OF assms] obtain s where
    b: "buildRecord (newMap (map (\<lambda>v. (vi_id v, v)) videoItems))
             (newMap (map (\<lambda>c. (ci_id c, c)) channelItems)) videoType channelAvgMap
             (case filtersArg of None \<Rightarrow> \<lparr>minViewCount = None, maxSubscriberCount = None\<rparr>
              | Some f \<Rightarrow> f) s = Some r"
    by blast
  from buildRecord_SomeD [OF b] have
    c: "channelId r = si_channelId s" and
    a: "channelAvgViews r = channelAvgMap (si_channelId s)" and
    cs: "contributionScore r =
           (case channelAvgMap (si_channelId s) of None \<Rightarrow> None
            | Some a \<Rightarrow> if js_gt a (Num 0) then calcContributionScore (viewCount r) a
                        else None)"
    by auto
  have pos: "calcContributionScore v x \<noteq> None" if "js_gt x (Num 0)" for v x
    using that by (cases x) (auto simp: calcContributionScore_def Let_def)
  show ?thesis
    using a c cs pos by (auto split: option.splits)
qed

theorem contributionScore_present_iff_witness:
  "hd (buildAndFilterResults ex_searchItems ex_videoItems ex_channelItems Longform
         ex_channelAvgMap None None)
     \<in> set (buildAndFilterResults ex_searchItems ex_videoItems ex_channelItems Longform
              ex_channelAvgMap None None) \<and>
   channelAvgViews (hd (buildAndFilterResults ex_searchItems ex_videoItems ex_channelItems
     Longform ex_channelAvgMap None None)) = Some (Num 50000) \<and>
   contributionScore (hd (buildAndFilterResults ex_searchItems ex_videoItems ex_channelItems
     Longform ex_channelAvgMap None None)) \<noteq> None \<and>
   hd (buildAndFilterResults ex_searchItems ex_videoItems ex_channelItems Longform
         Map.empty None None)
     \<in> set (buildAndFilterResults ex_searchItems ex_videoItems ex_channelItems Longform
              Map.empty None None) \<and>
   contributionScore (hd (buildAndFilterResults ex_searchItems ex_videoItems ex_channelItems
     Longform Map.empty None None)) = None"
proof -
  let ?out = "buildAndFilterResults ex_searchItems ex_videoItems ex_channelItems Longform
                ex_channelAvgMap None None"
  let ?plain = "buildAndFilterResults ex_searchItems ex_videoItems ex_channelItems Longform
                Map.empty None None"
  have m: "hd ?out \<in> set ?out" by code_simp
  have a: "channelAvgViews (hd ?out) = Some (Num 50000)" by code_simp
  have m0: "hd ?plain \<in> set ?plain" by code_simp
  have "\<exists>x. channelAvgViews (hd ?out) = Some x \<and> js_gt x (Num 0)"
    using a by simp
  with contributionScore_present_iff [OF m, THEN conjunct1]
  have 1: "contributionScore (hd ?out) \<noteq> None" by blast
  from contributionScore_present_iff [OF m0]
  have 2: "contributionScore (hd ?plain) = None" by simp
  from m a m0 1 2 show ?thesis by simp
qed






text \<open>
  Claim C9, as the code has it. Take two lists of search items whose accumulators hold
  the same records, in any order, none with the ratio NaN. Then the two outputs hold
  the same records and the same sequence of sort keys, and in each output the records
  of one sort key stand in the order in which the loop collected them: where keys are
  equal, the order of the output is the order of the input.
\<close>

theorem equal_keys_keep_input_order:
  assumes "mset (resultsBeforeSort searchItems1 videoItems channelItems videoType
                   channelAvgMap filtersArg maxResultsArg) =
           mset (resultsBeforeSort searchItems2 videoItems channelItems videoType
                   channelAvgMap filtersArg maxResultsArg)"
    and "\<forall>r\<in>set (resultsBeforeSort searchItems1 videoItems channelItems videoType
                   channelAvgMap filtersArg maxResultsArg). viewToSubscriberRatio r \<noteq> NaN"
  shows "mset (buildAndFilterResults searchItems1 videoItems channelItems videoType
                 channelAvgMap filtersArg maxResultsArg) =
         mset (buildAndFilterResults searchItems2 videoItems channelItems videoType
                 channelAvgMap filtersArg maxResultsArg) \<and>
         map sortKey (buildAndFilterResults searchItems1 videoItems channelItems videoType
                 channelAvgMap filtersArg maxResultsArg) =
         map sortKey (buildAndFilterResults searchItems2 videoItems channelItems videoType
                 channelAvgMap filtersArg maxResultsArg) \<and>
         filter (\<lambda>r. sortKey r = k)
           (buildAndFilterResults searchItems1 videoItems channelItems videoType
              channelAvgMap filtersArg maxResultsArg) =
         filter (\<lambda>r. sortKey r = k)
           (resultsBeforeSort searchItems1 videoItems channelItems videoType
              channelAvgMap filtersArg maxResultsArg) \<and>
         filter (\<lambda>r. sortKey r = k)
           (buildAndFilterResults searchItems2 videoItems channelItems videoType
              channelAvgMap filtersArg maxResultsArg) =
         filter (\<lambda>r. sortKey r = k)
           (resultsBeforeSort searchItems2 videoItems channelItems videoType
              channelAvgMap filtersArg maxResultsArg)"
proof -
  let ?acc1 = "resultsBeforeSort searchItems1 videoItems channelItems videoType
                 channelAvgMap filtersArg maxResultsArg"
  let ?acc2 = "resultsBeforeSort searchItems2 videoItems channelItems videoType
                 channelAvgMap filtersArg maxResultsArg"
  have set_eq: "set ?acc1 = set ?acc2" using assms(1) by (rule mset_eq_setD)
  have o1: "buildAndFilterResults searchItems1 videoItems channelItems videoType
              channelAvgMap filtersArg maxResultsArg = sort_key sortKey ?acc1"
    using assms(2) by (simp add: buildAndFilterResults_sort array_sort_sort_key)
  have o2: "buildAndFilterResults searchItems2 videoItems channelItems videoType
              channelAvgMap filtersArg maxResultsArg = sort_key sortKey ?acc2"
    using assms(2) set_eq by (simp add: buildAndFilterResults_sort array_sort_sort_key)
  have m: "mset (map sortKey (sort_key sortKey ?acc1)) = mset (map sortKey ?acc2)"
    using assms(1) by simp
  have k1: "sort (map sortKey ?acc2) = map sortKey (sort_key sortKey ?acc1)"
    using m by (rule properties_for_sort) (rule sorted_sort_key)
  have k2: "sort (map sortKey ?acc2) = map sortKey (sort_key sortKey ?acc2)"
    by (rule properties_for_sort) (simp_all)
  show ?thesis
    unfolding o1 o2 using assms(1) k1 k2 by (simp add: sort_key_stable)
qed

theorem equal_keys_keep_input_order_witness:
  "mset (resultsBeforeSort ex_searchItems ex_videoItems ex_channelItems Longform
           ex_channelAvgMap None None) =
   mset (resultsBeforeSort ex_searchItems_swapped ex_videoItems ex_channelItems Longform
           ex_channelAvgMap None None) \<and>
   list_all (\<lambda>r. viewToSubscriberRatio r \<noteq> NaN)
     (resultsBeforeSort ex_searchItems ex_videoItems ex_channelItems Longform
        ex_channelAvgMap None None) \<and>
   map sortKey (buildAndFilterResults ex_searchItems ex_videoItems ex_channelItems Longform
           ex_channelAvgMap None None) =
   map sortKey (buildAndFilterResults ex_searchItems_swapped ex_videoItems ex_channelItems
           Longform ex_channelAvgMap None None) \<and>
   filter (\<lambda>r. sortKey r = (- 5, - 5))
     (buildAndFilterResults ex_searchItems ex_videoItems ex_channelItems Longform
        ex_channelAvgMap None None) =
   filter (\<lambda>r. sortKey r = (- 5, - 5))
     (resultsBeforeSort ex_searchItems ex_videoItems ex_channelItems Longform
        ex_channelAvgMap None None)"
proof -
  let ?acc = "resultsBeforeSort ex_searchItems ex_videoItems ex_channelItems Longform
                ex_channelAvgMap None None"
  let ?swapped = "resultsBeforeSort ex_searchItems_swapped ex_videoItems ex_channelItems
                Longform ex_channelAvgMap None None"
  have "?swapped = rev ?acc" by code_simp
  then have m: "mset ?acc = mset ?swapped" by simp
  have l: "list_all (\<lambda>r. viewToSubscriberRatio r \<noteq> NaN) ?acc" by code_simp
  then have h: "\<forall>r\<in>set ?acc. viewToSubscriberRatio r \<noteq> NaN"
    by (simp add: list_all_iff)
  from m l equal_keys_keep_input_order [OF m h, of "(- 5, - 5)"] show ?thesis by simp
qed

text \<open>
  Claim C9 as it is stated fails: two videos of one channel with the same counts get
  the same score and the same ratio, and the output lists them in the order of the
  search items, so that the two orders of the input give two different outputs.
\<close>

theorem equal_keys_output_follows_input:
  "map id' (buildAndFilterResults ex_searchItems ex_videoItems ex_channelItems Longform
              ex_channelAvgMap None None) = [''v1'', ''v2''] \<and>
   map id' (buildAndFilterResults ex_searchItems_swapped ex_videoItems ex_channelItems
              Longform ex_channelAvgMap None None) = [''v2'', ''v1''] \<and>
   map viewToSubscriberRatio
     (buildAndFilterResults ex_searchItems ex_videoItems ex_channelItems Longform
        ex_channelAvgMap None None) = [Num 5, Num 5] \<and>
   map score (map performanceScore
     (buildAndFilterResults ex_searchItems ex_videoItems ex_channelItems Longform
        ex_channelAvgMap None None)) = [5, 5] \<and>
   buildAndFilterResults ex_searchItems ex_videoItems ex_channelItems Longform
     ex_channelAvgMap None None \<noteq>
   buildAndFilterResults ex_searchItems_swapped ex_videoItems ex_channelItems Longform
     ex_channelAvgMap None None"
  by code_simp

text \<open>
  Claim C10. POST calls \<open>buildAndFilterResults\<close> with the budget 100, not with the
  default 30: the \<open>videos\<close> of every response are at most 100, \<open>total\<close> is their
  number, and they can be more than 30: 31 search items that all pass give 31 records
  under the budget 100 and 30 records under the default.
\<close>

theorem POST_response_budget:
  "length (videos (POST_response allSearchItems videoItems channelItems videoType
             channelAvgMap minViewCountArg maxSubscriberCountArg)) \<le> 100 \<and>
   total (POST_response allSearchItems videoItems channelItems videoType
            channelAvgMap minViewCountArg maxSubscriberCountArg) =
   length (videos (POST_response allSearchItems videoItems channelItems videoType
             channelAvgMap minViewCountArg maxSubscriberCountArg)) \<and>
   (allSearchItems \<noteq> [] \<longrightarrow>
      videos (POST_response allSearchItems videoItems channelItems videoType
                channelAvgMap minViewCountArg maxSubscriberCountArg) =
      buildAndFilterResults allSearchItems videoItems channelItems videoType channelAvgMap
        (Some \<lparr>minViewCount =
                  (case minViewCountArg of None \<Rightarrow> None
                   | Some m \<Rightarrow> if js_gt m (Num 0) then Some m else None),
                maxSubscriberCount = maxSubscriberCountArg\<rparr>)
        (Some (Num 100))) \<and>
   length (buildAndFilterResults (ex_manySearchItems 31) (ex_manyVideoItems 31)
             ex_channelItems Longform ex_channelAvgMap None (Some (Num 100))) = 31 \<and>
   length (buildAndFilterResults (ex_manySearchItems 31) (ex_manyVideoItems 31)
             ex_channelItems Longform ex_channelAvgMap None None) = 30"
proof -
  have "length (collectResults (Num (of_int (int 100))) body allSearchItems []) \<le> 100" for body
    by (rule collectResults_length) simp
  then have bound: "length (buildAndFilterResults allSearchItems videoItems channelItems
                      videoType channelAvgMap f (Some (Num 100))) \<le> 100" for f
    by (simp add: buildAndFilterResults_sort length_array_sort resultsBeforeSort_def)
  have a: "length (buildAndFilterResults (ex_manySearchItems 31) (ex_manyVideoItems 31)
             ex_channelItems Longform ex_channelAvgMap None (Some (Num 100))) = 31"
    by code_simp
  have b: "length (buildAndFilterResults (ex_manySearchItems 31) (ex_manyVideoItems 31)
             ex_channelItems Longform ex_channelAvgMap None None) = 30"
    by code_simp
  show ?thesis
    using bound a b by (auto simp: POST_response_def Let_def)
qed

theorem POST_response_budget_witness:
  "ex_manySearchItems 31 \<noteq> [] \<and>
   length (videos (POST_response (ex_manySearchItems 31) (ex_manyVideoItems 31)
             ex_channelItems Longform ex_channelAvgMap None None)) = 31"
proof -
  note budget = POST_response_budget [of "ex_manySearchItems 31" "ex_manyVideoItems 31"
      ex_channelItems Longform ex_channelAvgMap None None]
  have ne: "ex_manySearchItems 31 \<noteq> []" by code_simp
  have "videos (POST_response (ex_manySearchItems 31) (ex_manyVideoItems 31)
                  ex_channelItems Longform ex_channelAvgMap None None) =
        buildAndFilterResults (ex_manySearchItems 31) (ex_manyVideoItems 31) ex_channelItems
          Longform ex_channelAvgMap
          (Some \<lparr>minViewCount = None, maxSubscriberCount = None\<rparr>) (Some (Num 100))"
    using budget [THEN conjunct2, THEN conjunct2, THEN conjunct1] ne by simp
  also have "\<dots> = buildAndFilterResults (ex_manySearchItems 31) (ex_manyVideoItems 31)
          ex_channelItems Longform ex_channelAvgMap None (Some (Num 100))"
    by (simp add: buildAndFilterResults_def)
  finally show ?thesis
    using ne budget [THEN conjunct2, THEN conjunct2, THEN conjunct2, THEN conjunct1] by simp
qed

section \<open>The error translation of the client\<close>

text \<open>
  Claim C7. The rule of \<open>youtubeFetch\<close>, read in its order. A call of \<open>fetch\<close> that
  throws gives NETWORK_ERROR. Of a response that is not ok: status 400, or the reason
  \<^verbatim>\<open>keyInvalid\<close> or \<^verbatim>\<open>badRequest\<close>, gives INVALID_API_KEY; otherwise status
  403 gives QUOTA_EXCEEDED with the reason \<^verbatim>\<open>quotaExceeded\<close> or
  \<^verbatim>\<open>dailyLimitExceeded\<close> and FORBIDDEN without; otherwise status 404 gives
  NOT_FOUND; every other one gives UNKNOWN with the message of the platform (the default
  message when it sent none). Every response that is not ok is rejected with a code of
  the taxonomy. A response that is ok with an empty list of items makes each of the four
  operations return the empty list.
\<close>

theorem youtubeFetch_taxonomy:
  "rejectedCode (youtubeFetch FetchThrows) = Some NETWORK_ERROR \<and>
   (res_status res = 400 \<longrightarrow>
      rejectedCode (youtubeFetch (FetchReturns res)) = Some INVALID_API_KEY) \<and>
   (\<not> res_ok res \<and> malformedKeyReason res \<longrightarrow>
      rejectedCode (youtubeFetch (FetchReturns res)) = Some INVALID_API_KEY) \<and>
   (res_status res = 403 \<and> quotaReason res \<longrightarrow>
      rejectedCode (youtubeFetch (FetchReturns res)) = Some QUOTA_EXCEEDED) \<and>
   (res_status res = 403 \<and> \<not> quotaReason res \<and> \<not> malformedKeyReason res \<longrightarrow>
      rejectedCode (youtubeFetch (FetchReturns res)) = Some FORBIDDEN) \<and>
   (res_status res = 404 \<and> \<not> malformedKeyReason res \<longrightarrow>
      rejectedCode (youtubeFetch (FetchReturns res)) = Some NOT_FOUND) \<and>
   (\<not> res_ok res \<and> res_status res \<noteq> 400 \<and> res_status res \<noteq> 403 \<and> res_status res \<noteq> 404 \<and>
    \<not> malformedKeyReason res \<longrightarrow>
      rejectedCode (youtubeFetch (FetchReturns res)) = Some UNKNOWN \<and>
      rejectedMessage (youtubeFetch (FetchReturns res)) =
        Some (case res_errorMessage res of None \<Rightarrow> MSG_DEFAULT | Some m \<Rightarrow> m)) \<and>
   (\<not> res_ok res \<longrightarrow> rejectedCode (youtubeFetch (FetchReturns res)) \<noteq> None) \<and>
   (res_ok resS \<and> res_json resS = Some bodyS \<and> items bodyS = Some [] \<longrightarrow>
      searchVideos (FetchReturns resS) = Inr ([], nextPageToken bodyS)) \<and>
   (res_ok resV \<and> res_json resV = Some bodyV \<and> items bodyV = Some [] \<longrightarrow>
      getVideoDetails videoIds (FetchReturns resV) = Inr []) \<and>
   (res_ok resC \<and> res_json resC = Some bodyC \<and> items bodyC = Some [] \<longrightarrow>
      getChannelDetails channelIds (FetchReturns resC) = Inr []) \<and>
   (res_ok resP \<and> res_json resP = Some bodyP \<and> items bodyP = Some [] \<longrightarrow>
      getPlaylistItems (FetchReturns resP) = Inr [])"
proof -
  have 1: "rejectedCode (youtubeFetch FetchThrows) = Some NETWORK_ERROR"
    by (simp add: youtubeFetch_def rejectedCode_def)
  have 2: "res_status res = 400 \<longrightarrow>
      rejectedCode (youtubeFetch (FetchReturns res)) = Some INVALID_API_KEY"
    by (simp add: youtubeFetch_def rejectedCode_def res_ok_def Let_def)
  have 3: "\<not> res_ok res \<and> malformedKeyReason res \<longrightarrow>
      rejectedCode (youtubeFetch (FetchReturns res)) = Some INVALID_API_KEY"
    by (auto simp: youtubeFetch_def rejectedCode_def malformedKeyReason_def reasonOf_def Let_def)
  have 4: "res_status res = 403 \<and> quotaReason res \<longrightarrow>
      rejectedCode (youtubeFetch (FetchReturns res)) = Some QUOTA_EXCEEDED"
    by (auto simp: youtubeFetch_def rejectedCode_def quotaReason_def reasonOf_def res_ok_def Let_def)
  have 5: "res_status res = 403 \<and> \<not> quotaReason res \<and> \<not> malformedKeyReason res \<longrightarrow>
      rejectedCode (youtubeFetch (FetchReturns res)) = Some FORBIDDEN"
    by (auto simp: youtubeFetch_def rejectedCode_def quotaReason_def malformedKeyReason_def
          reasonOf_def res_ok_def Let_def)
  have 6: "res_status res = 404 \<and> \<not> malformedKeyReason res \<longrightarrow>
      rejectedCode (youtubeFetch (FetchReturns res)) = Some NOT_FOUND"
    by (auto simp: youtubeFetch_def rejectedCode_def malformedKeyReason_def
          reasonOf_def res_ok_def Let_def)
  have 7: "\<not> res_ok res \<and> res_status res \<noteq> 400 \<and> res_status res \<noteq> 403 \<and> res_status res \<noteq> 404 \<and>
    \<not> malformedKeyReason res \<longrightarrow>
      rejectedCode (youtubeFetch (FetchReturns res)) = Some UNKNOWN \<and>
      rejectedMessage (youtubeFetch (FetchReturns res)) =
        Some (case res_errorMessage res of None \<Rightarrow> MSG_DEFAULT | Some m \<Rightarrow> m)"
    by (auto simp: youtubeFetch_def rejectedCode_def rejectedMessage_def malformedKeyReason_def
          reasonOf_def Let_def)
  have 8: "\<not> res_ok res \<longrightarrow> rejectedCode (youtubeFetch (FetchReturns res)) \<noteq> None"
    by (auto simp: youtubeFetch_def rejectedCode_def Let_def)
  have 9: "res_ok resS \<and> res_json resS = Some bodyS \<and> items bodyS = Some [] \<longrightarrow>
      searchVideos (FetchReturns resS) = Inr ([], nextPageToken bodyS)"
    by (simp add: searchVideos_def youtubeFetch_def itemsOrEmpty_def)
  have 10: "res_ok resV \<and> res_json resV = Some bodyV \<and> items bodyV = Some [] \<longrightarrow>
      getVideoDetails videoIds (FetchReturns resV) = Inr []"
    by (simp add: getVideoDetails_def youtubeFetch_def itemsOrEmpty_def)
  have 11: "res_ok resC \<and> res_json resC = Some bodyC \<and> items bodyC = Some [] \<longrightarrow>
      getChannelDetails channelIds (FetchReturns resC) = Inr []"
    by (simp add: getChannelDetails_def youtubeFetch_def itemsOrEmpty_def)
  have 12: "res_ok resP \<and> res_json resP = Some bodyP \<and> items bodyP = Some [] \<longrightarrow>
      getPlaylistItems (FetchReturns resP) = Inr []"
    by (simp add: getPlaylistItems_def youtubeFetch_def itemsOrEmpty_def)
  from 1 2 3 4 5 6 7 8 9 10 11 12 show ?thesis by blast
qed

theorem youtubeFetch_taxonomy_witness:
  "res_status (errorResponse 400 None None) = 400 \<and>
   rejectedCode (youtubeFetch (FetchReturns (errorResponse 400 None None))) =
     Some INVALID_API_KEY \<and>
   \<not> res_ok (errorResponse 403 (Some ''keyInvalid'') None) \<and>
   malformedKeyReason (errorResponse 403 (Some ''keyInvalid'') None) \<and>
   rejectedCode (youtubeFetch (FetchReturns (errorResponse 403 (Some ''keyInvalid'') None))) =
     Some INVALID_API_KEY \<and>
   quotaReason (errorResponse 403 (Some ''quotaExceeded'') None) \<and>
   rejectedCode (youtubeFetch (FetchReturns (errorResponse 403 (Some ''quotaExceeded'') None))) =
     Some QUOTA_EXCEEDED \<and>
   rejectedCode (youtubeFetch (FetchReturns (errorResponse 403 (Some ''forbidden'') None))) =
     Some FORBIDDEN \<and>
   rejectedCode (youtubeFetch (FetchReturns (errorResponse 404 None None))) =
     Some NOT_FOUND \<and>
   rejectedCode (youtubeFetch (FetchReturns (errorResponse 500 None (Some ''backend'')))) =
     Some UNKNOWN \<and>
   rejectedMessage (youtubeFetch (FetchReturns (errorResponse 500 None (Some ''backend'')))) =
     Some ''backend'' \<and>
   res_ok (okResponse (Some ([] :: YouTubeVideoItem list))) \<and>
   getVideoDetails [''v1''] (FetchReturns (okResponse (Some []))) = Inr []"
proof -
  have d: "\<not> res_ok (errorResponse st r m) \<longleftrightarrow> \<not> (200 \<le> st \<and> st \<le> 299)"
    "res_status (errorResponse st r m) = st"
    "res_errorMessage (errorResponse st r m) = m"
    "reasonOf (errorResponse st (Some x) m) = x"
    "reasonOf (errorResponse st None m) = ''unknown''" for st r m x
    by (simp_all add: errorResponse_def res_ok_def reasonOf_def)
  have ok: "res_ok (okResponse (Some ([] :: YouTubeVideoItem list)))"
    "res_json (okResponse (Some ([] :: YouTubeVideoItem list))) =
       Some \<lparr>items = Some [], nextPageToken = None\<rparr>"
    by (simp_all add: okResponse_def res_ok_def)
  have 1: "rejectedCode (youtubeFetch (FetchReturns (errorResponse 400 None None))) =
             Some INVALID_API_KEY"
    using youtubeFetch_taxonomy [where res = "errorResponse 400 None None", THEN conjunct2, THEN conjunct1]
    by (simp add: d)
  have k: "malformedKeyReason (errorResponse 403 (Some ''keyInvalid'') None)"
    by (simp add: malformedKeyReason_def d)
  have 2: "rejectedCode (youtubeFetch (FetchReturns (errorResponse 403 (Some ''keyInvalid'') None))) =
             Some INVALID_API_KEY"
    using youtubeFetch_taxonomy [where res = "errorResponse 403 (Some ''keyInvalid'') None",
        THEN conjunct2, THEN conjunct2, THEN conjunct1] k
    by (simp add: d)
  have q: "quotaReason (errorResponse 403 (Some ''quotaExceeded'') None)"
    by (simp add: quotaReason_def d)
  have 3: "rejectedCode (youtubeFetch (FetchReturns (errorResponse 403 (Some ''quotaExceeded'') None))) =
             Some QUOTA_EXCEEDED"
    using youtubeFetch_taxonomy [where res = "errorResponse 403 (Some ''quotaExceeded'') None",
        THEN conjunct2, THEN conjunct2, THEN conjunct2, THEN conjunct1] q
    by (simp add: d)
  have f: "\<not> quotaReason (errorResponse 403 (Some ''forbidden'') None)"
    "\<not> malformedKeyReason (errorResponse 403 (Some ''forbidden'') None)"
    by (simp_all add: quotaReason_def malformedKeyReason_def d)
  have 4: "rejectedCode (youtubeFetch (FetchReturns (errorResponse 403 (Some ''forbidden'') None))) =
             Some FORBIDDEN"
    using youtubeFetch_taxonomy [where res = "errorResponse 403 (Some ''forbidden'') None",
        THEN conjunct2, THEN conjunct2, THEN conjunct2, THEN conjunct2, THEN conjunct1] f
    by (simp add: d)
  have n: "\<not> malformedKeyReason (errorResponse 404 None None)"
    "\<not> malformedKeyReason (errorResponse 500 None (Some ''backend''))"
    by (simp_all add: malformedKeyReason_def d)
  have 5: "rejectedCode (youtubeFetch (FetchReturns (errorResponse 404 None None))) =
             Some NOT_FOUND"
    using youtubeFetch_taxonomy [where res = "errorResponse 404 None None",
        THEN conjunct2, THEN conjunct2, THEN conjunct2, THEN conjunct2, THEN conjunct2, THEN conjunct1] n
    by (simp add: d)
  have 6: "rejectedCode (youtubeFetch (FetchReturns (errorResponse 500 None (Some ''backend'')))) =
             Some UNKNOWN \<and>
           rejectedMessage (youtubeFetch (FetchReturns (errorResponse 500 None (Some ''backend'')))) =
             Some ''backend''"
    using youtubeFetch_taxonomy [where res = "errorResponse 500 None (Some ''backend'')",
        THEN conjunct2, THEN conjunct2, THEN conjunct2, THEN conjunct2, THEN conjunct2, THEN conjunct2, THEN conjunct1] n
    by (simp add: d)
  have 7: "getVideoDetails [''v1''] (FetchReturns (okResponse (Some []))) = Inr []"
    using youtubeFetch_taxonomy [where resV = "okResponse (Some [])"
      and bodyV = "\<lparr>items = Some [], nextPageToken = None\<rparr>" and videoIds = "[''v1'']",
        THEN conjunct2, THEN conjunct2, THEN conjunct2, THEN conjunct2, THEN conjunct2, THEN conjunct2, THEN conjunct2, THEN conjunct2, THEN conjunct2, THEN conjunct1] ok
    by simp
  from 1 2 3 4 5 6 7 k q ok show ?thesis by (simp add: d)
qed

section \<open>The channel average\<close>









end
